theory Spec2Isabelle
  imports Complex_Main "HOL-Library.Sublist"
begin

section \<open>Earthquake Visualizer: the data-refresh and filtering pipeline of App.jsx\<close>

text \<open>
  The component \<^verbatim>\<open>App\<close> of \<^verbatim>\<open>src/App.jsx\<close> holds its state in React state
  cells, fetches the USGS feed, and derives the filtered list, the summary statistics and
  the marker styles from that state. The embedding below follows the source function by
  function.

  Numbers. Magnitudes, depths and the magnitude bounds are JavaScript numbers that come
  from a JSON document or from \<^verbatim>\<open>Number(e.target.value)\<close> of a numeric input
  (the empty string of an invalid input converts to 0), so they are finite; they are
  modelled as \<^typ>\<open>real\<close>. The comparisons of the source agree with the order of the
  reals on finite numbers, and the only arithmetic, \<^verbatim>\<open>mag * 4\<close>, is a scaling by
  a power of two whose result is compared with 40 at once.

  Strings. A string is a list of code units; the type \<^typ>\<open>char\<close> covers the code
  units below 256 (Basic Latin and Latin-1 Supplement).

  Absent values. A JSON member that is missing or \<^verbatim>\<open>null\<close> is \<open>None\<close>.
\<close>

subsection \<open>Strings: trim, toLowerCase, includes\<close>

text \<open>
  \<^verbatim>\<open>String.prototype.trim\<close> removes white space and line terminators from both
  ends. Below 256 these are TAB, LF, VT, FF, CR, SPACE and NO-BREAK SPACE.
\<close>

definition is_whitespace :: "char \<Rightarrow> bool" where
  "is_whitespace c =
     (let n = (of_char c :: nat) in (9 \<le> n \<and> n \<le> 13) \<or> n = 32 \<or> n = 160)"

definition trim :: "string \<Rightarrow> string" where
  "trim s = rev (dropWhile is_whitespace (rev (dropWhile is_whitespace s)))"

text \<open>
  \<^verbatim>\<open>String.prototype.toLowerCase\<close>: below 256 the upper-case letters are A to Z
  and U+00C0 to U+00DE without the multiplication sign U+00D7; each maps to the code
  unit 32 above it.
\<close>

definition lower_char :: "char \<Rightarrow> char" where
  "lower_char c =
     (let n = (of_char c :: nat) in
      if (65 \<le> n \<and> n \<le> 90) \<or> (192 \<le> n \<and> n \<le> 222 \<and> n \<noteq> 215)
      then char_of (n + 32) else c)"

definition toLowerCase :: "string \<Rightarrow> string" where
  "toLowerCase s = map lower_char s"

text \<open>\<^verbatim>\<open>s.includes(q)\<close>: \<open>q\<close> occurs in \<open>s\<close> as a contiguous run.\<close>

fun includes_str :: "string \<Rightarrow> string \<Rightarrow> bool" where
  "includes_str [] q = (q = [])"
| "includes_str (c # cs) q = (prefix q (c # cs) \<or> includes_str cs q)"

subsection \<open>The feed document and the events parsed from it\<close>

text \<open>
  A feature of the feed has an \<^verbatim>\<open>id\<close>, a \<^verbatim>\<open>geometry\<close> with
  \<^verbatim>\<open>coordinates\<close>, and \<^verbatim>\<open>properties\<close>. Every member can be absent.
  A document that is not an object with a \<^verbatim>\<open>features\<close> array has
  \<open>features = None\<close>: reading \<^verbatim>\<open>data.features.map\<close> raises a
  \<^verbatim>\<open>TypeError\<close> in each of these cases.
\<close>

record properties =
  p_mag :: "real option"
  p_place :: "string option"
  p_time :: "int option"
  p_url :: "string option"
  p_type :: "string option"

record geometry =
  coordinates :: "real list option"

record feature =
  f_id :: "string option"
  f_geometry :: "geometry option"
  f_properties :: "properties option"

record data =
  features :: "feature list option"

text \<open>
  The object built by the callback of \<^verbatim>\<open>data.features.map\<close>. The fields
  \<open>mag\<close> and \<open>place\<close> are defaulted and hence always present; the others are
  passed through and are \<open>None\<close> where the source has \<^verbatim>\<open>undefined\<close>.
\<close>

record event =
  id_ev :: "string option"
  mag :: real
  place :: string
  time :: "int option"
  url :: "string option"
  depth :: "real option"
  lat :: "real option"
  lon :: "real option"
  type_ev :: "string option"

text \<open>
  Exceptions carry a message. The text of the messages that the engine itself raises
  (\<^verbatim>\<open>TypeError\<close>, \<^verbatim>\<open>SyntaxError\<close>, \<^verbatim>\<open>RangeError\<close>, a rejected
  \<^verbatim>\<open>fetch\<close>) is engine-specific; no result below depends on it.
\<close>

datatype exn = Error string | TypeError string | SyntaxError string | RangeError string

fun message :: "exn \<Rightarrow> string" where
  "message (Error m) = m"
| "message (TypeError m) = m"
| "message (SyntaxError m) = m"
| "message (RangeError m) = m"

text \<open>Array destructuring: a position beyond the end of the array is \<^verbatim>\<open>undefined\<close>.\<close>

definition element :: "'a list \<Rightarrow> nat \<Rightarrow> 'a option" where
  "element xs i = (if i < length xs then Some (xs ! i) else None)"

text \<open>
  The callback \<^verbatim>\<open>f => { const [lon, lat, depth] = f.geometry.coordinates; return {...} }\<close>.
  Reading a member of an absent \<^verbatim>\<open>geometry\<close> or \<^verbatim>\<open>properties\<close>, and
  destructuring absent coordinates, raise a \<^verbatim>\<open>TypeError\<close>.
\<close>

definition parseFeature :: "feature \<Rightarrow> exn + event" where
  "parseFeature f =
     (case f_geometry f of
        None \<Rightarrow> Inl (TypeError ''f.geometry has no coordinates'')
      | Some g \<Rightarrow>
     (case coordinates g of
        None \<Rightarrow> Inl (TypeError ''coordinates is not iterable'')
      | Some cs \<Rightarrow>
     (case f_properties f of
        None \<Rightarrow> Inl (TypeError ''f.properties has no mag'')
      | Some p \<Rightarrow>
          Inr \<lparr> id_ev = f_id f,
                mag = (case p_mag p of None \<Rightarrow> 0 | Some m \<Rightarrow> m),
                place = (case p_place p of None \<Rightarrow> ''Unknown location'' | Some s \<Rightarrow> s),
                time = p_time p,
                url = p_url p,
                depth = element cs 2,
                lat = element cs 1,
                lon = element cs 0,
                type_ev = p_type p \<rparr>)))"

text \<open>\<^verbatim>\<open>features.map(callback)\<close>: the first exception of the callback ends the map.\<close>

fun parseFeatures :: "feature list \<Rightarrow> exn + event list" where
  "parseFeatures [] = Inr []"
| "parseFeatures (f # fs) =
     (case parseFeature f of
        Inl x \<Rightarrow> Inl x
      | Inr e \<Rightarrow> (case parseFeatures fs of Inl x \<Rightarrow> Inl x | Inr es \<Rightarrow> Inr (e # es)))"

text \<open>
  What the network gives \<^verbatim>\<open>fetchData\<close>: the promise of \<^verbatim>\<open>fetch\<close> is
  rejected with an exception, or it resolves to a response with its \<^verbatim>\<open>ok\<close> flag
  and the result of \<^verbatim>\<open>res.json()\<close> (an exception, or the parsed document).
\<close>

datatype response = Rejected exn | Resolved bool "exn + data"

text \<open>The body of the \<^verbatim>\<open>try\<close> block: the event list, or the exception thrown.\<close>

definition tryBody :: "response \<Rightarrow> exn + event list" where
  "tryBody r =
     (case r of
        Rejected x \<Rightarrow> Inl x
      | Resolved ok body \<Rightarrow>
          if \<not> ok then Inl (Error ''Failed to fetch earthquake data'')
          else (case body of
                  Inl x \<Rightarrow> Inl x
                | Inr d \<Rightarrow>
                    (case features d of
                       None \<Rightarrow> Inl (TypeError ''data.features has no map'')
                     | Some fs \<Rightarrow> parseFeatures fs)))"

subsection \<open>The state of the component\<close>

datatype color_mode = Severity | Depth

record app_state =
  earthquakes :: "event list"
  loading :: bool
  error :: "string option"
  minMag :: real
  maxMag :: real
  colorMode :: color_mode
  query :: string
  autoRefresh :: bool

text \<open>The initial values of the \<^verbatim>\<open>useState\<close> cells.\<close>

definition initial :: app_state where
  "initial = \<lparr> earthquakes = [], loading = True, error = None,
               minMag = 0, maxMag = 10, colorMode = Severity, query = [],
               autoRefresh = True \<rparr>"

subsection \<open>fetchData\<close>

text \<open>
  \<^verbatim>\<open>fetchData\<close> runs up to its first \<^verbatim>\<open>await\<close>, suspends, and resumes
  when the network has answered. Each \<^verbatim>\<open>setX\<close> replaces one state cell and leaves
  the others as they are at that moment, so the two halves are updates of the state that
  is current when they run.
\<close>

definition fetchData_start :: "app_state \<Rightarrow> app_state" where
  "fetchData_start s = s\<lparr> loading := True, error := None \<rparr>"

definition fetchData_finish :: "response \<Rightarrow> app_state \<Rightarrow> app_state" where
  "fetchData_finish r s =
     (case tryBody r of
        Inr evs \<Rightarrow> s\<lparr> earthquakes := evs, loading := False \<rparr>
      | Inl x \<Rightarrow>
          s\<lparr> error := Some (if message x = [] then ''Unknown error'' else message x),
             loading := False \<rparr>)"

text \<open>One fetch with nothing else happening between its two halves.\<close>

definition fetchData :: "response \<Rightarrow> app_state \<Rightarrow> app_state" where
  "fetchData r s = fetchData_finish r (fetchData_start s)"

subsection \<open>Derived values\<close>

text \<open>The memoised \<^verbatim>\<open>filtered\<close>: two filters in sequence.\<close>

definition filtered :: "app_state \<Rightarrow> event list" where
  "filtered s =
     (let q = toLowerCase (trim (query s)) in
      filter (\<lambda>e. if q \<noteq> [] then includes_str (toLowerCase (place e)) q else True)
        (filter (\<lambda>e. mag e \<ge> minMag s \<and> mag e \<le> maxMag s) (earthquakes s)))"

text \<open>
  \<^verbatim>\<open>getColor\<close>. A comparison \<^verbatim>\<open>e.depth >= n\<close> with an absent depth is false.
\<close>

definition depth_ge :: "real option \<Rightarrow> real \<Rightarrow> bool" where
  "depth_ge d n = (case d of None \<Rightarrow> False | Some x \<Rightarrow> x \<ge> n)"

definition getColor :: "app_state \<Rightarrow> event \<Rightarrow> string" where
  "getColor s e =
     (if colorMode s = Depth then
        (if depth_ge (depth e) 300 then ''#0b3d91''
         else if depth_ge (depth e) 100 then ''#2b77d9''
         else if depth_ge (depth e) 50 then ''#5aa0f0''
         else ''#9fd0ff'')
      else
        (if mag e \<ge> 6 then ''#b02a2a''
         else if mag e \<ge> 5 then ''#f97316''
         else if mag e \<ge> 4 then ''#f59e0b''
         else if mag e \<ge> 3 then ''#eab308''
         else ''#16a34a''))"

definition getRadius :: "real \<Rightarrow> real" where
  "getRadius m = (if m \<le> 0 then 4 else max 4 (min 40 (m * 4)))"

text \<open>
  \<^verbatim>\<open>stats\<close>. \<^verbatim>\<open>e.mag || 0\<close> replaces a falsy magnitude, which for a finite
  number is 0, by 0.

  \<^verbatim>\<open>Math.max(...xs)\<close> spreads the list into the arguments of one call, one
  argument per event. An engine accepts only so many arguments in a call and raises a
  \<^verbatim>\<open>RangeError\<close> beyond that; the number is the engine's (it depends on the engine
  and on its stack), not the language's, so it is the parameter \<open>limit\<close>: the largest
  number of arguments that the engine running the component accepts. Within the limit,
  \<^verbatim>\<open>Math.max\<close> of one or more arguments is the left fold of \<open>max\<close> over them.
  \<^verbatim>\<open>Math.max()\<close> of no argument is minus infinity, which is not a real, so
  \<open>Math_max\<close> has no equation for the empty list: \<^verbatim>\<open>stats\<close> returns before the
  call when the list is empty.

  \<^verbatim>\<open>stats\<close> runs while the component renders; its exception is not caught, so the
  render has no statistics then.
\<close>

record summary =
  count :: nat
  maxMag_of :: real

definition or0 :: "real \<Rightarrow> real" where
  "or0 m = (if m = 0 then 0 else m)"

fun Math_max :: "nat \<Rightarrow> real list \<Rightarrow> exn + real" where
  "Math_max limit (x # xs) =
     (if limit < length (x # xs) then Inl (RangeError ''Maximum call stack size exceeded'')
      else Inr (foldl max x xs))"

definition stats :: "nat \<Rightarrow> app_state \<Rightarrow> exn + summary" where
  "stats limit s =
     (if length (earthquakes s) = 0 then Inr \<lparr> count = 0, maxMag_of = 0 \<rparr>
      else (case Math_max limit (map (\<lambda>e. or0 (mag e)) (earthquakes s)) of
              Inl x \<Rightarrow> Inl x
            | Inr m \<Rightarrow> Inr \<lparr> count = length (earthquakes s), maxMag_of = m \<rparr>))"

text \<open>The handler of the Reset button.\<close>

definition reset :: "app_state \<Rightarrow> app_state" where
  "reset s = s\<lparr> minMag := 0, maxMag := 10, query := [], colorMode := Severity \<rparr>"

subsection \<open>The component over time\<close>

text \<open>
  The running component: its state cells, the number of calls of \<^verbatim>\<open>fetchData\<close>
  that have started and not yet finished (\<open>inflight\<close>, a ghost counter: the source
  keeps no such count), whether the mount effects have run, and whether the interval of
  the auto-refresh effect is set.
\<close>

record system =
  app :: app_state
  inflight :: nat
  mounted :: bool
  timer :: bool

definition init :: system where
  "init = \<lparr> app = initial, inflight = 0, mounted = False, timer = False \<rparr>"

text \<open>
  What can happen: the mount effects run (\<^verbatim>\<open>fetchData()\<close>, then the interval is
  set when \<^verbatim>\<open>autoRefresh\<close> holds); the interval fires; the user presses Refresh
  now; a fetch in flight gets its answer; the user changes a control or presses Reset.
\<close>

datatype action =
    Mount
  | Tick
  | RefreshNow
  | Finish response
  | SetMinMag real
  | SetMaxMag real
  | SetQuery string
  | SetColorMode color_mode
  | SetAutoRefresh bool
  | Reset

definition begin_fetch :: "system \<Rightarrow> system" where
  "begin_fetch y = y\<lparr> app := fetchData_start (app y), inflight := Suc (inflight y) \<rparr>"

fun step :: "system \<Rightarrow> action \<Rightarrow> system option" where
  "step y Mount =
     (if mounted y then None
      else Some ((begin_fetch y)\<lparr> mounted := True, timer := autoRefresh (app y) \<rparr>))"
| "step y Tick =
     (if mounted y \<and> timer y then Some (begin_fetch y) else None)"
| "step y RefreshNow =
     (if mounted y then Some (begin_fetch y) else None)"
| "step y (Finish r) =
     (if 0 < inflight y
      then Some (y\<lparr> app := fetchData_finish r (app y), inflight := inflight y - 1 \<rparr>)
      else None)"
| "step y (SetMinMag x) =
     (if mounted y then Some (y\<lparr> app := (app y)\<lparr> minMag := x \<rparr> \<rparr>) else None)"
| "step y (SetMaxMag x) =
     (if mounted y then Some (y\<lparr> app := (app y)\<lparr> maxMag := x \<rparr> \<rparr>) else None)"
| "step y (SetQuery q) =
     (if mounted y then Some (y\<lparr> app := (app y)\<lparr> query := q \<rparr> \<rparr>) else None)"
| "step y (SetColorMode m) =
     (if mounted y then Some (y\<lparr> app := (app y)\<lparr> colorMode := m \<rparr> \<rparr>) else None)"
| "step y (SetAutoRefresh b) =
     (if mounted y
      then Some (y\<lparr> app := (app y)\<lparr> autoRefresh := b \<rparr>, timer := b \<rparr>)
      else None)"
| "step y Reset =
     (if mounted y then Some (y\<lparr> app := reset (app y) \<rparr>) else None)"

text \<open>A run: the actions one after the other; \<open>None\<close> when one of them cannot happen.\<close>

fun run :: "system \<Rightarrow> action list \<Rightarrow> system option" where
  "run y [] = Some y"
| "run y (a # as) = (case step y a of None \<Rightarrow> None | Some y' \<Rightarrow> run y' as)"

subsection \<open>Notions used to state the properties\<close>

text \<open>
  The magnitude of a feed record, a missing magnitude counting as 0 (the reading of the
  specification, to be compared with what \<open>parseFeature\<close> and \<open>stats\<close> compute).
\<close>

definition feed_mag :: "feature \<Rightarrow> real" where
  "feed_mag f =
     (case f_properties f of
        None \<Rightarrow> 0
      | Some p \<Rightarrow> (case p_mag p of None \<Rightarrow> 0 | Some m \<Rightarrow> m))"

text \<open>
  The invariant of the running component: once the mount effects have run, the loading
  flag is set only while a fetch is in flight; before that the component is in its
  initial state.
\<close>

definition loading_inv :: "system \<Rightarrow> bool" where
  "loading_inv y =
     (if mounted y then (loading (app y) \<longrightarrow> 0 < inflight y) else y = init)"

subsection \<open>Example inputs\<close>

definition tokyo :: event where
  "tokyo = \<lparr> id_ev = Some ''us1'', mag = 52 / 10, place = ''Tokyo, Japan'',
             time = Some 1700000000000, url = None, depth = Some 35,
             lat = Some 35, lon = Some 139, type_ev = Some ''earthquake'' \<rparr>"

definition reno :: event where
  "reno = \<lparr> id_ev = Some ''nn2'', mag = 21 / 10, place = ''Reno, NV'',
            time = Some 1700000000001, url = None, depth = Some 8,
            lat = Some 39, lon = Some (-119), type_ev = Some ''earthquake'' \<rparr>"

definition two_events :: app_state where
  "two_events = initial\<lparr> earthquakes := [tokyo, reno], loading := False \<rparr>"

text \<open>A feature without \<^verbatim>\<open>mag\<close> and without \<^verbatim>\<open>place\<close>, and its event.\<close>

definition bare_properties :: properties where
  "bare_properties = \<lparr> p_mag = None, p_place = None, p_time = Some 1700000000002,
                       p_url = None, p_type = Some ''quarry blast'' \<rparr>"

definition bare_feature :: feature where
  "bare_feature = \<lparr> f_id = Some ''ak3'',
                    f_geometry = Some \<lparr> coordinates = Some [-150, 61, 12] \<rparr>,
                    f_properties = Some bare_properties \<rparr>"

definition bare_event :: event where
  "bare_event = \<lparr> id_ev = Some ''ak3'', mag = 0, place = ''Unknown location'',
                  time = Some 1700000000002, url = None, depth = Some 12,
                  lat = Some 61, lon = Some (-150), type_ev = Some ''quarry blast'' \<rparr>"

text \<open>A feed of 130000 events, more than an engine with a limit of 65535 arguments takes.\<close>

definition long_feed :: app_state where
  "long_feed = initial\<lparr> earthquakes := replicate 130000 tokyo, loading := False \<rparr>"

definition offline :: response where
  "offline = Rejected (TypeError ''Failed to fetch'')"

section \<open>Properties\<close>

subsection \<open>Auxiliary facts\<close>

lemma includes_str_sublist: "includes_str s q \<longleftrightarrow> sublist q s"
  by (induction s) (auto simp: sublist_Cons_right)

lemma filtered_as_one_filter:
  "filtered s =
     filter (\<lambda>e. minMag s \<le> mag e \<and> mag e \<le> maxMag s \<and>
                 (toLowerCase (trim (query s)) = [] \<or>
                  includes_str (toLowerCase (place e)) (toLowerCase (trim (query s)))))
       (earthquakes s)"
  unfolding filtered_def Let_def filter_filter
  by (rule filter_cong) auto

lemma filtered_mag: "e \<in> set (filtered s) \<Longrightarrow> minMag s \<le> mag e \<and> mag e \<le> maxMag s"
  by (simp add: filtered_as_one_filter)

lemma foldl_max_Max: "foldl max (x::real) xs = Max (insert x (set xs))"
proof (induction xs arbitrary: x)
  case Nil
  show ?case by simp
next
  case (Cons a xs)
  have "Max (insert x (insert a (set xs))) = Max (insert (max x a) (set xs))"
  proof (cases "set xs = {}")
    case True
    then show ?thesis by (simp add: max.commute)
  next
    case False
    then show ?thesis by (simp add: max.assoc max.left_commute max.commute)
  qed
  with Cons show ?case by simp
qed

lemma Math_max_Max:
  "xs \<noteq> [] \<Longrightarrow> length xs \<le> limit \<Longrightarrow> Math_max limit xs = Inr (Max (set xs))"
  by (cases xs) (simp_all add: foldl_max_Max)

lemma Math_max_RangeError:
  "limit < length xs \<Longrightarrow>
     Math_max limit xs = Inl (RangeError ''Maximum call stack size exceeded'')"
  by (cases xs) simp_all

lemma or0_id: "or0 m = m"
  by (simp add: or0_def)

lemma stats_within_limit:
  "length (earthquakes s) \<le> limit \<Longrightarrow>
     stats limit s =
       Inr \<lparr> count = length (earthquakes s),
             maxMag_of = (if earthquakes s = [] then 0 else Max (mag ` set (earthquakes s))) \<rparr>"
  by (simp add: stats_def or0_id Math_max_Max)

lemma stats_beyond_limit:
  "limit < length (earthquakes s) \<Longrightarrow>
     stats limit s = Inl (RangeError ''Maximum call stack size exceeded'')"
proof -
  assume "limit < length (earthquakes s)"
  then have "limit < length (map (\<lambda>e. or0 (mag e)) (earthquakes s))"
    and "earthquakes s \<noteq> []"
    by auto
  then show ?thesis
    by (simp add: stats_def Math_max_RangeError)
qed

lemma parseFeature_defaults:
  "parseFeature f = Inr e \<Longrightarrow> f_properties f = Some p \<Longrightarrow>
     mag e = (case p_mag p of None \<Rightarrow> 0 | Some m \<Rightarrow> m) \<and>
     place e = (case p_place p of None \<Rightarrow> ''Unknown location'' | Some t \<Rightarrow> t)"
  by (auto simp: parseFeature_def split: option.splits)

lemma parseFeature_mag: "parseFeature f = Inr e \<Longrightarrow> mag e = feed_mag f"
  by (auto simp: parseFeature_def feed_mag_def split: option.splits)

lemma parseFeatures_mag: "parseFeatures fs = Inr es \<Longrightarrow> map mag es = map feed_mag fs"
  by (induction fs arbitrary: es) (auto simp: parseFeature_mag split: sum.splits)

lemma parseFeatures_mag_set:
  assumes "parseFeatures fs = Inr es"
  shows "mag ` set es = feed_mag ` set fs"
proof -
  have "set (map mag es) = set (map feed_mag fs)"
    using parseFeatures_mag [OF assms] by simp
  then show ?thesis by simp
qed

lemma parseFeatures_Nil: "parseFeatures fs = Inr [] \<Longrightarrow> fs = []"
  by (cases fs) (auto split: sum.splits)

lemma loading_inv_step: "loading_inv y \<Longrightarrow> step y a = Some y' \<Longrightarrow> loading_inv y'"
  by (cases a)
     (auto simp: loading_inv_def begin_fetch_def fetchData_start_def fetchData_finish_def
                 reset_def init_def
           split: if_splits sum.splits)

lemma loading_inv_run: "loading_inv y \<Longrightarrow> run y as = Some y' \<Longrightarrow> loading_inv y'"
proof (induction as arbitrary: y)
  case Nil
  then show ?case by simp
next
  case (Cons a as)
  then show ?case by (auto split: option.splits dest: loading_inv_step)
qed

lemma parse_bare_feature: "parseFeature bare_feature = Inr bare_event"
  by (simp add: parseFeature_def bare_feature_def bare_event_def bare_properties_def
        element_def)

lemma lower_tokyo: "toLowerCase (place tokyo) = ''tokyo, japan''"
  unfolding tokyo_def by code_simp

lemma lower_reno: "toLowerCase (place reno) = ''reno, nv''"
  unfolding reno_def by code_simp

lemma lower_trim_japan: "toLowerCase (trim ''  JAPAN '') = ''japan''"
  by code_simp

lemma trim_empty: "toLowerCase (trim []) = []"
  by (simp add: toLowerCase_def trim_def)

subsection \<open>Filtering\<close>

text \<open>
  Claim C1. For every raw event list and criteria, the filtered result holds exactly the
  events whose magnitude lies between the two bounds (inclusive) and whose lowercased
  place contains the trimmed, lowercased query, or whose query is empty after trimming;
  it is drawn from the raw list and keeps the order of the raw list.
\<close>

theorem filtered_exact:
  "filtered s =
     filter (\<lambda>e. minMag s \<le> mag e \<and> mag e \<le> maxMag s \<and>
                 (toLowerCase (trim (query s)) = [] \<or>
                  sublist (toLowerCase (trim (query s))) (toLowerCase (place e))))
       (earthquakes s)
   \<and> set (filtered s) \<subseteq> set (earthquakes s)
   \<and> subseq (filtered s) (earthquakes s)"
proof -
  have one: "filtered s =
     filter (\<lambda>e. minMag s \<le> mag e \<and> mag e \<le> maxMag s \<and>
                 (toLowerCase (trim (query s)) = [] \<or>
                  sublist (toLowerCase (trim (query s))) (toLowerCase (place e))))
       (earthquakes s)"
    by (simp add: filtered_as_one_filter includes_str_sublist)
  have "subseq (filtered s) (earthquakes s)"
    by (subst one) (rule subseq_filter_left)
  moreover have "set (filtered s) \<subseteq> set (earthquakes s)"
    by (subst one) (rule filter_is_subset)
  ultimately show ?thesis using one by blast
qed

theorem filtered_exact_witness:
  "filtered (two_events\<lparr> minMag := 3 \<rparr>) = [tokyo] \<and>
   filtered (two_events\<lparr> query := ''  JAPAN '' \<rparr>) = [tokyo] \<and>
   filtered two_events = [tokyo, reno]"
proof -
  have a: "filtered (two_events\<lparr> minMag := 3 \<rparr>) = [tokyo]"
    using filtered_exact [of "two_events\<lparr> minMag := 3 \<rparr>"]
    by (simp add: two_events_def initial_def trim_empty) (simp add: tokyo_def reno_def)
  have b: "filtered (two_events\<lparr> query := ''  JAPAN '' \<rparr>) = [tokyo]"
    using filtered_exact [of "two_events\<lparr> query := ''  JAPAN '' \<rparr>"]
    by (simp add: two_events_def initial_def lower_trim_japan lower_tokyo lower_reno
          sublist_Cons_right)
       (simp add: tokyo_def reno_def)
  have c: "filtered two_events = [tokyo, reno]"
    using filtered_exact [of two_events]
    by (simp add: two_events_def initial_def trim_empty) (simp add: tokyo_def reno_def)
  from a b c show ?thesis by simp
qed

text \<open>
  Claim C9. When the lower magnitude bound exceeds the upper one, the filtered result is
  the empty list; it is an ordinary result, not an error.
\<close>

theorem filtered_empty_range:
  "maxMag s < minMag s \<Longrightarrow> filtered s = []"
  by (auto simp: filtered_as_one_filter filter_empty_conv)

theorem filtered_empty_range_witness:
  "maxMag (two_events\<lparr> minMag := 6, maxMag := 5 \<rparr>) < minMag (two_events\<lparr> minMag := 6, maxMag := 5 \<rparr>) \<and>
   earthquakes (two_events\<lparr> minMag := 6, maxMag := 5 \<rparr>) = [tokyo, reno] \<and>
   filtered (two_events\<lparr> minMag := 6, maxMag := 5 \<rparr>) = []"
  using filtered_empty_range [of "two_events\<lparr> minMag := 6, maxMag := 5 \<rparr>"]
  by (simp add: two_events_def)

subsection \<open>Statistics\<close>

text \<open>
  Claim C2, as amended. For every raw event list that is no longer than the number of
  arguments the engine accepts in one call, the statistics count all raw events and
  report the largest magnitude among them (both 0 for the empty list), where a feed
  record without magnitude counts as 0; and the statistics do not change when the filter
  criteria change.
\<close>

theorem stats_of_raw_events:
  "length (earthquakes s) \<le> limit \<Longrightarrow>
     stats limit s =
       Inr \<lparr> count = length (earthquakes s),
             maxMag_of = (if earthquakes s = [] then 0 else Max (mag ` set (earthquakes s))) \<rparr> \<and>
     (parseFeatures fs = Inr (earthquakes s) \<longrightarrow>
        stats limit s =
          Inr \<lparr> count = length fs,
                maxMag_of = (if fs = [] then 0 else Max (feed_mag ` set fs)) \<rparr>) \<and>
     stats limit (s\<lparr> minMag := a, maxMag := b, query := q, colorMode := c \<rparr>) = stats limit s"
proof -
  assume short: "length (earthquakes s) \<le> limit"
  note raw = stats_within_limit [OF short]
  have "stats limit s =
          Inr \<lparr> count = length fs,
                maxMag_of = (if fs = [] then 0 else Max (feed_mag ` set fs)) \<rparr>"
    if parsed: "parseFeatures fs = Inr (earthquakes s)"
  proof -
    have "length (map mag (earthquakes s)) = length (map feed_mag fs)"
      using parseFeatures_mag [OF parsed] by simp
    then have len: "length (earthquakes s) = length fs"
      by simp
    then have "earthquakes s = [] \<longleftrightarrow> fs = []"
      by auto
    with len show ?thesis
      by (simp add: raw parseFeatures_mag_set [OF parsed])
  qed
  moreover have "stats limit (s\<lparr> minMag := a, maxMag := b, query := q, colorMode := c \<rparr>)
      = stats limit s"
    by (simp add: stats_def split: sum.splits)
  ultimately show ?thesis
    using raw by blast
qed

theorem stats_of_raw_events_witness:
  "length (earthquakes two_events) \<le> 65535 \<and>
   stats 65535 (two_events\<lparr> minMag := 3 \<rparr>) = Inr \<lparr> count = 2, maxMag_of = 52 / 10 \<rparr> \<and>
   stats 65535 two_events = Inr \<lparr> count = 2, maxMag_of = 52 / 10 \<rparr> \<and>
   stats 2 two_events = Inr \<lparr> count = 2, maxMag_of = 52 / 10 \<rparr> \<and>
   stats 0 initial = Inr \<lparr> count = 0, maxMag_of = 0 \<rparr> \<and>
   parseFeatures [bare_feature] = Inr [bare_event] \<and>
   stats 65535 (initial\<lparr> earthquakes := [bare_event] \<rparr>) = Inr \<lparr> count = 1, maxMag_of = 0 \<rparr>"
proof -
  have p: "parseFeatures [bare_feature] = Inr [bare_event]"
    by (simp add: parse_bare_feature)
  have len: "length (earthquakes two_events) \<le> 65535" "length (earthquakes two_events) \<le> 2"
    by (simp_all add: two_events_def)
  have a: "stats 65535 (two_events\<lparr> minMag := 3 \<rparr>) = stats 65535 two_events"
    using stats_of_raw_events [where s = two_events and limit = 65535 and fs = "[]" and a = 3
        and b = "maxMag two_events" and q = "query two_events" and c = "colorMode two_events",
        OF len(1)]
    by simp
  have b: "stats 65535 two_events = Inr \<lparr> count = 2, maxMag_of = 52 / 10 \<rparr>"
    using stats_of_raw_events [where s = two_events and limit = 65535 and fs = "[]", OF len(1)]
    by (simp add: two_events_def tokyo_def reno_def)
  have b2: "stats 2 two_events = Inr \<lparr> count = 2, maxMag_of = 52 / 10 \<rparr>"
    using stats_of_raw_events [where s = two_events and limit = 2 and fs = "[]", OF len(2)]
    by (simp add: two_events_def tokyo_def reno_def)
  have c: "stats 0 initial = Inr \<lparr> count = 0, maxMag_of = 0 \<rparr>"
    using stats_of_raw_events [where s = initial and limit = 0 and fs = "[]"]
    by (simp add: initial_def)
  have "length (earthquakes (initial\<lparr> earthquakes := [bare_event] \<rparr>)) \<le> 65535"
    by simp
  moreover
  have "parseFeatures [bare_feature] = Inr (earthquakes (initial\<lparr> earthquakes := [bare_event] \<rparr>))"
    using p by simp
  ultimately
  have "stats 65535 (initial\<lparr> earthquakes := [bare_event] \<rparr>) =
          Inr \<lparr> count = length [bare_feature],
                maxMag_of = (if [bare_feature] = [] then 0
                             else Max (feed_mag ` set [bare_feature])) \<rparr>"
    using stats_of_raw_events [where s = "initial\<lparr> earthquakes := [bare_event] \<rparr>"
        and limit = 65535 and fs = "[bare_feature]"]
    by blast
  then have d: "stats 65535 (initial\<lparr> earthquakes := [bare_event] \<rparr>) =
      Inr \<lparr> count = 1, maxMag_of = 0 \<rparr>"
    by (simp add: feed_mag_def bare_feature_def bare_properties_def)
  from a b b2 c d p len(1) show ?thesis by simp
qed

text \<open>
  Claim C2 as first stated, for every raw event list, fails on a list longer than the
  engine's limit: on an engine that accepts 65535 arguments, a feed of 130000 events makes
  \<^verbatim>\<open>Math.max(...)\<close> raise a \<^verbatim>\<open>RangeError\<close>, and \<^verbatim>\<open>stats\<close> yields neither
  a count nor a maximum.
\<close>

theorem stats_long_feed_RangeError:
  "length (earthquakes long_feed) = 130000 \<and>
   stats 65535 long_feed = Inl (RangeError ''Maximum call stack size exceeded'')"
proof -
  have len: "length (earthquakes long_feed) = 130000"
    by (simp add: long_feed_def)
  then have "65535 < length (earthquakes long_feed)"
    by simp
  then have "stats 65535 long_feed = Inl (RangeError ''Maximum call stack size exceeded'')"
    by (rule stats_beyond_limit)
  with len show ?thesis by simp
qed

subsection \<open>Marker styles\<close>

text \<open>
  Claim C3. \<open>getRadius m\<close> is 4 when \<open>m \<le> 0\<close>, and otherwise \<open>m * 4\<close> clamped
  to the interval from 4 to 40; so it lies between 4 and 40 for every \<open>m\<close>.
\<close>

theorem getRadius_clamped:
  "(m \<le> 0 \<longrightarrow> getRadius m = 4) \<and>
   (0 < m \<longrightarrow> getRadius m = (if m * 4 < 4 then 4 else if 40 < m * 4 then 40 else m * 4)) \<and>
   4 \<le> getRadius m \<and> getRadius m \<le> 40"
  by (simp add: getRadius_def)

theorem getRadius_clamped_witness:
  "getRadius (- 1) = 4 \<and> getRadius 0 = 4 \<and> getRadius (1 / 2) = 4 \<and>
   getRadius (5 / 2) = 10 \<and> getRadius 10 = 40 \<and> getRadius 11 = 40"
  using getRadius_clamped [of "- 1"] getRadius_clamped [of 0] getRadius_clamped [of "1 / 2"]
    getRadius_clamped [of "5 / 2"] getRadius_clamped [of 10] getRadius_clamped [of 11]
  by simp

text \<open>
  Claim C4. \<open>getRadius\<close> is monotonically non-decreasing on positive magnitudes.
\<close>

theorem getRadius_monotone:
  "0 < m1 \<Longrightarrow> m1 \<le> m2 \<Longrightarrow> getRadius m1 \<le> getRadius m2"
  by (simp add: getRadius_def)

theorem getRadius_monotone_witness:
  "(0::real) < 3 / 2 \<and> (3 / 2 :: real) \<le> 7 \<and> getRadius (3 / 2) \<le> getRadius 7"
  using getRadius_monotone [of "3 / 2" 7] by simp

text \<open>
  Claim C5. \<open>getColor\<close> selects exactly one tier per mode, the thresholds being
  inclusive lower bounds tried from the highest down: by magnitude 6, 5, 4, 3 in severity
  mode (five tiers), by depth 300, 100, 50 in depth mode (four tiers; an event without
  depth gets the lightest).
\<close>

theorem getColor_tiers:
  "(colorMode s = Severity \<longrightarrow>
      (getColor s e = ''#b02a2a'' \<longleftrightarrow> 6 \<le> mag e) \<and>
      (getColor s e = ''#f97316'' \<longleftrightarrow> 5 \<le> mag e \<and> mag e < 6) \<and>
      (getColor s e = ''#f59e0b'' \<longleftrightarrow> 4 \<le> mag e \<and> mag e < 5) \<and>
      (getColor s e = ''#eab308'' \<longleftrightarrow> 3 \<le> mag e \<and> mag e < 4) \<and>
      (getColor s e = ''#16a34a'' \<longleftrightarrow> mag e < 3)) \<and>
   (colorMode s = Depth \<longrightarrow>
      (\<forall>d. depth e = Some d \<longrightarrow>
         (getColor s e = ''#0b3d91'' \<longleftrightarrow> 300 \<le> d) \<and>
         (getColor s e = ''#2b77d9'' \<longleftrightarrow> 100 \<le> d \<and> d < 300) \<and>
         (getColor s e = ''#5aa0f0'' \<longleftrightarrow> 50 \<le> d \<and> d < 100) \<and>
         (getColor s e = ''#9fd0ff'' \<longleftrightarrow> d < 50)) \<and>
      (depth e = None \<longrightarrow> getColor s e = ''#9fd0ff''))"
  by (cases "depth e") (simp_all add: getColor_def depth_ge_def)

theorem getColor_tiers_witness:
  "getColor initial (tokyo\<lparr> mag := 6 \<rparr>) = ''#b02a2a'' \<and>
   getColor initial tokyo = ''#f97316'' \<and>
   getColor initial reno = ''#16a34a'' \<and>
   getColor (initial\<lparr> colorMode := Depth \<rparr>) (tokyo\<lparr> depth := Some 300 \<rparr>) = ''#0b3d91'' \<and>
   getColor (initial\<lparr> colorMode := Depth \<rparr>) tokyo = ''#9fd0ff''"
  using getColor_tiers [of initial "tokyo\<lparr> mag := 6 \<rparr>"]
    getColor_tiers [of initial tokyo] getColor_tiers [of initial reno]
    getColor_tiers [of "initial\<lparr> colorMode := Depth \<rparr>" "tokyo\<lparr> depth := Some 300 \<rparr>"]
    getColor_tiers [of "initial\<lparr> colorMode := Depth \<rparr>" tokyo]
  by (simp add: initial_def tokyo_def reno_def)

subsection \<open>Parsing the feed\<close>

text \<open>
  Claim C6. An event parsed from a feed record without magnitude has magnitude 0, and one
  parsed from a record without place has the place "Unknown location"; an event whose
  magnitude defaulted to 0 is in no filtered result whose lower bound is above 0.
\<close>

theorem parse_defaults:
  "parseFeature f = Inr e \<Longrightarrow> f_properties f = Some p \<Longrightarrow>
     (p_mag p = None \<longrightarrow> mag e = 0 \<and> (\<forall>s. 0 < minMag s \<longrightarrow> e \<notin> set (filtered s))) \<and>
     (p_place p = None \<longrightarrow> place e = ''Unknown location'')"
proof -
  assume parsed: "parseFeature f = Inr e" and props: "f_properties f = Some p"
  have "mag e = 0 \<and> (\<forall>s. 0 < minMag s \<longrightarrow> e \<notin> set (filtered s))" if "p_mag p = None"
  proof -
    from parseFeature_defaults [OF parsed props] that have zero: "mag e = 0" by simp
    have "e \<notin> set (filtered s)" if "0 < minMag s" for s
      using filtered_mag [of e s] zero that by auto
    with zero show ?thesis by blast
  qed
  moreover have "place e = ''Unknown location''" if "p_place p = None"
    using parseFeature_defaults [OF parsed props] that by simp
  ultimately show ?thesis by blast
qed

theorem parse_defaults_witness:
  "parseFeature bare_feature = Inr bare_event \<and>
   f_properties bare_feature = Some bare_properties \<and>
   p_mag bare_properties = None \<and> p_place bare_properties = None \<and>
   mag bare_event = 0 \<and> place bare_event = ''Unknown location'' \<and>
   bare_event \<in> set (earthquakes (initial\<lparr> earthquakes := [tokyo, bare_event], minMag := 1 / 10 \<rparr>)) \<and>
   bare_event \<notin> set (filtered (initial\<lparr> earthquakes := [tokyo, bare_event], minMag := 1 / 10 \<rparr>))"
proof -
  have props: "f_properties bare_feature = Some bare_properties"
    by (simp add: bare_feature_def)
  have none: "p_mag bare_properties = None \<and> p_place bare_properties = None"
    by (simp add: bare_properties_def)
  have low: "0 < minMag (initial\<lparr> earthquakes := [tokyo, bare_event], minMag := 1 / 10 \<rparr>)"
    by simp
  from parse_defaults [OF parse_bare_feature props] none
  have zero: "mag bare_event = 0"
    and out: "\<forall>s. 0 < minMag s \<longrightarrow> bare_event \<notin> set (filtered s)"
    and unknown: "place bare_event = ''Unknown location''"
    by simp_all
  from out [rule_format, OF low] zero unknown parse_bare_feature props none
  show ?thesis by simp
qed

subsection \<open>Fetching\<close>

text \<open>
  Claim C7. A fetch attempt clears the error when it starts and sets it only when it
  fails; a failed attempt leaves the event list as it was, so that a failure after a
  successful fetch keeps the list of that fetch.
\<close>

theorem fetchData_error:
  "error (fetchData_start s) = None \<and>
   earthquakes (fetchData_start s) = earthquakes s \<and>
   (case tryBody r of
      Inr evs \<Rightarrow>
        error (fetchData_finish r s) = error s \<and> error (fetchData r s) = None
    | Inl x \<Rightarrow>
        error (fetchData_finish r s) =
          Some (if message x = [] then ''Unknown error'' else message x) \<and>
        error (fetchData r s) = error (fetchData_finish r s) \<and>
        earthquakes (fetchData_finish r s) = earthquakes s \<and>
        earthquakes (fetchData r s) = earthquakes s)"
  by (simp add: fetchData_def fetchData_start_def fetchData_finish_def split: sum.splits)

theorem fetchData_error_witness:
  "earthquakes (fetchData (Resolved True (Inr \<lparr> features = Some [bare_feature] \<rparr>)) initial)
     = [bare_event] \<and>
   error (fetchData (Resolved True (Inr \<lparr> features = Some [bare_feature] \<rparr>)) initial) = None \<and>
   earthquakes
     (fetchData offline
        (fetchData (Resolved True (Inr \<lparr> features = Some [bare_feature] \<rparr>)) initial))
     = [bare_event] \<and>
   error
     (fetchData offline
        (fetchData (Resolved True (Inr \<lparr> features = Some [bare_feature] \<rparr>)) initial))
     = Some ''Failed to fetch'' \<and>
   error (fetchData (Resolved False (Inl (SyntaxError []))) initial)
     = Some ''Failed to fetch earthquake data'' \<and>
   error (fetchData (Rejected (Error [])) initial) = Some ''Unknown error''"
proof -
  let ?ok = "Resolved True (Inr \<lparr> features = Some [bare_feature] \<rparr>)"
  have t1: "tryBody ?ok = Inr [bare_event]"
    by (simp add: tryBody_def parse_bare_feature)
  have t2: "tryBody offline = Inl (TypeError ''Failed to fetch'')"
    by (simp add: tryBody_def offline_def)
  have t3: "tryBody (Resolved False (Inl (SyntaxError []))) = Inl (Error ''Failed to fetch earthquake data'')"
    by (simp add: tryBody_def)
  have t4: "tryBody (Rejected (Error [])) = Inl (Error [])"
    by (simp add: tryBody_def)
  have a: "earthquakes (fetchData ?ok initial) = [bare_event]"
    by (simp add: fetchData_def fetchData_finish_def fetchData_start_def t1)
  have b: "error (fetchData ?ok initial) = None"
    using fetchData_error [of initial ?ok] by (simp add: t1)
  have c: "earthquakes (fetchData offline (fetchData ?ok initial)) = [bare_event]
         \<and> error (fetchData offline (fetchData ?ok initial)) = Some ''Failed to fetch''"
    using fetchData_error [of "fetchData ?ok initial" offline] a by (simp add: t2)
  have d: "error (fetchData (Resolved False (Inl (SyntaxError []))) initial)
     = Some ''Failed to fetch earthquake data''"
    using fetchData_error [of initial "Resolved False (Inl (SyntaxError []))"] by (simp add: t3)
  have e: "error (fetchData (Rejected (Error [])) initial) = Some ''Unknown error''"
    using fetchData_error [of initial "Rejected (Error [])"] by (simp add: t4)
  from a b c d e show ?thesis by simp
qed

subsection \<open>The loading flag\<close>

text \<open>
  Claim C10, as amended. In every reachable state in which the mount effects have run
  (the first fetch has started), the loading flag is set only while a fetch is in flight;
  a state in which they have not run is the initial state, whose loading flag is set
  (the initial value of the state cell) with no fetch in flight. The flag becomes true
  when a fetch attempt starts and false when one completes, by success or by failure.
\<close>

theorem loading_only_in_flight:
  "run init as = Some y \<Longrightarrow>
     (mounted y \<longrightarrow> loading (app y) \<longrightarrow> 0 < inflight y) \<and>
     (\<not> mounted y \<longrightarrow> y = init) \<and>
     loading (app init) \<and> inflight init = 0 \<and>
     loading (fetchData_start s) \<and> \<not> loading (fetchData_finish r s)"
proof -
  assume "run init as = Some y"
  moreover have "loading_inv init"
    by (simp add: loading_inv_def init_def)
  ultimately have "loading_inv y"
    by (rule loading_inv_run [rotated])
  then have "(mounted y \<longrightarrow> loading (app y) \<longrightarrow> 0 < inflight y) \<and> (\<not> mounted y \<longrightarrow> y = init)"
    by (simp add: loading_inv_def split: if_splits)
  moreover have "loading (app init) \<and> inflight init = 0"
    by (simp add: init_def initial_def)
  moreover have "loading (fetchData_start s)"
    by (simp add: fetchData_start_def)
  moreover have "\<not> loading (fetchData_finish r s)"
    by (simp add: fetchData_finish_def split: sum.splits)
  ultimately show ?thesis by blast
qed

theorem loading_only_in_flight_witness:
  "(case run init [Mount] of
      None \<Rightarrow> False
    | Some y \<Rightarrow> mounted y \<and> loading (app y) \<and> inflight y = 1) \<and>
   (case run init [Mount, Finish offline] of
      None \<Rightarrow> False
    | Some y \<Rightarrow> mounted y \<and> \<not> loading (app y) \<and> inflight y = 0) \<and>
   (case run init [Mount, RefreshNow, Finish offline] of
      None \<Rightarrow> False
    | Some y \<Rightarrow> mounted y \<and> \<not> loading (app y) \<and> inflight y = 1)"
proof -
  obtain y1 where r1: "run init [Mount] = Some y1"
    by (simp add: init_def)
  obtain y2 where r2: "run init [Mount, Finish offline] = Some y2"
    by (simp add: init_def begin_fetch_def)
  obtain y3 where r3: "run init [Mount, RefreshNow, Finish offline] = Some y3"
    by (simp add: init_def begin_fetch_def)
  have "mounted y1 \<and> loading (app y1) \<and> inflight y1 = 1"
    using loading_only_in_flight [OF r1] r1
    by (auto simp: init_def begin_fetch_def fetchData_start_def)
  moreover have "mounted y2 \<and> \<not> loading (app y2) \<and> inflight y2 = 0"
    using loading_only_in_flight [OF r2, of initial offline] r2
    by (auto simp: init_def begin_fetch_def fetchData_start_def fetchData_finish_def
          split: sum.splits)
  moreover have "mounted y3 \<and> \<not> loading (app y3) \<and> inflight y3 = 1"
    using loading_only_in_flight [OF r3, of initial offline] r3
    by (auto simp: init_def begin_fetch_def fetchData_start_def fetchData_finish_def
          split: sum.splits)
  ultimately show ?thesis using r1 r2 r3 by simp
qed

text \<open>
  Claim C10 as first stated fails in the initial state: \<^verbatim>\<open>useState(true)\<close> sets the
  loading flag before any fetch has begun.
\<close>

theorem loading_initially_true:
  "run init [] = Some init \<and> loading (app init) \<and> inflight init = 0 \<and> \<not> mounted init"
  by (simp add: init_def initial_def)

subsection \<open>Resetting the criteria\<close>

text \<open>
  Claim C8. Whatever the criteria were, Reset restores the lower bound 0, the upper bound
  10, the empty query and the severity colour mode, and it touches nothing else.
\<close>

theorem reset_defaults:
  "minMag (reset s) = 0 \<and> maxMag (reset s) = 10 \<and> query (reset s) = [] \<and>
   colorMode (reset s) = Severity \<and>
   earthquakes (reset s) = earthquakes s \<and> loading (reset s) = loading s \<and>
   error (reset s) = error s \<and> autoRefresh (reset s) = autoRefresh s \<and>
   minMag (reset s) = minMag initial \<and> maxMag (reset s) = maxMag initial \<and>
   query (reset s) = query initial \<and> colorMode (reset s) = colorMode initial"
  by (simp add: reset_def initial_def)

end
